theory Spec2Isabelle
  imports Main
begin

section \<open>Podman API errors: a model of podman/errors/exceptions.py\<close>

subsection \<open>Python values the module formats\<close>

text \<open>
  An f-string field \<open>{x}\<close> formats \<open>x\<close> with \<open>str\<close>. For an \<open>int\<close> that is its
  decimal numeral, with a leading minus sign when negative.
\<close>

definition digit_char :: "nat \<Rightarrow> char" where
  "digit_char d = ''0123456789'' ! d"

fun str_nat :: "nat \<Rightarrow> string" where
  "str_nat n = (if n < 10 then [digit_char n] else str_nat (n div 10) @ [digit_char (n mod 10)])"

declare str_nat.simps [simp del]

definition str_int :: "int \<Rightarrow> string" where
  "str_int i = (if i < 0 then CHR ''-'' # str_nat (nat (- i)) else str_nat (nat i))"

text \<open>
  Formatting an \<open>Optional[int]\<close> or an \<open>Optional[str]\<close>: \<open>None\<close> gives the text
  \<open>None\<close>, a string is inserted as it is.
\<close>

definition str_opt_int :: "int option \<Rightarrow> string" where
  "str_opt_int x = (case x of None \<Rightarrow> ''None'' | Some i \<Rightarrow> str_int i)"

definition str_opt_str :: "string option \<Rightarrow> string" where
  "str_opt_str x = (case x of None \<Rightarrow> ''None'' | Some s \<Rightarrow> s)"

text \<open>
  The truth value Python gives an \<open>Optional[str]\<close> in a condition: \<open>None\<close> and the
  empty string are false, every other string is true.
\<close>

definition truthy_str :: "string option \<Rightarrow> bool" where
  "truthy_str x = (case x of None \<Rightarrow> False | Some s \<Rightarrow> s \<noteq> [])"

text \<open>\<open>x or 0\<close> for an \<open>Optional[int]\<close>: \<open>None\<close> and \<open>0\<close> are false, so both give \<open>0\<close>.\<close>

definition or_zero :: "int option \<Rightarrow> int" where
  "or_zero x = (case x of None \<Rightarrow> 0 | Some i \<Rightarrow> if i = 0 then 0 else i)"

subsection \<open>The class hierarchy\<close>

text \<open>
  The classes the module declares, and the three it imports and derives from
  (\<open>HTTPError\<close> of requests, and the builtins \<open>Exception\<close> and \<open>RuntimeError\<close>).
\<close>

datatype exc_class =
    Exception | RuntimeError | HTTPError
  | APIError | NotFound | ImageNotFound
  | DockerException | PodmanError
  | BuildError | ContainerError | InvalidArgument | PodmanConnectionError
  | StreamParseError

text \<open>
  \<open>base c\<close> is the class named in the parentheses of \<open>class c(...)\<close>. The ancestry of the
  three imported classes lies outside the module; none of it is a class of the module.
\<close>

fun base :: "exc_class \<Rightarrow> exc_class option" where
  "base APIError = Some HTTPError"
| "base NotFound = Some APIError"
| "base ImageNotFound = Some APIError"
| "base DockerException = Some Exception"
| "base PodmanError = Some DockerException"
| "base BuildError = Some PodmanError"
| "base ContainerError = Some PodmanError"
| "base InvalidArgument = Some PodmanError"
| "base PodmanConnectionError = Some PodmanError"
| "base StreamParseError = Some RuntimeError"
| "base Exception = None"
| "base RuntimeError = None"
| "base HTTPError = None"

text \<open>The number of \<open>base\<close> steps from a class up to an imported one.\<close>

fun depth :: "exc_class \<Rightarrow> nat" where
  "depth c = (case c of
      Exception \<Rightarrow> 0 | RuntimeError \<Rightarrow> 0 | HTTPError \<Rightarrow> 0
    | APIError \<Rightarrow> 1 | DockerException \<Rightarrow> 1 | StreamParseError \<Rightarrow> 1
    | NotFound \<Rightarrow> 2 | ImageNotFound \<Rightarrow> 2 | PodmanError \<Rightarrow> 2
    | _ \<Rightarrow> 3)"

lemma base_depth: "base c = Some b \<Longrightarrow> depth b < depth c"
  by (cases c) auto

text \<open>\<open>issubclass(c, d)\<close>: \<open>d\<close> is \<open>c\<close> or is reached from \<open>c\<close> by \<open>base\<close> steps.\<close>

function issubclass :: "exc_class \<Rightarrow> exc_class \<Rightarrow> bool" where
  "issubclass c d = (c = d \<or> (case base c of None \<Rightarrow> False | Some b \<Rightarrow> issubclass b d))"
  by pat_completeness auto
termination
  by (relation "measure (\<lambda>(c, d). depth c)") (auto simp del: depth.simps dest: base_depth)

declare issubclass.simps [simp del]

subsection \<open>Exception objects\<close>

text \<open>
  Every constructor of the module passes exactly one argument on to the constructor of
  its imported ancestor, which keeps it as \<open>args[0]\<close>; the inherited \<open>__str__\<close> of
  these ancestors returns that argument. \<open>message\<close> is this argument and \<open>cls\<close> the class
  the object was created from.
\<close>

record exception =
  cls :: exc_class
  message :: string

definition Exception_str :: "'a exception_scheme \<Rightarrow> string" where
  "Exception_str e = message e"

definition isinstance :: "'a exception_scheme \<Rightarrow> exc_class \<Rightarrow> bool" where
  "isinstance e c = issubclass (cls e) c"

subsection \<open>APIError\<close>

text \<open>
  The HTTP response handle: the two attributes the module reads, an \<open>int\<close> and a \<open>str\<close>.
\<close>

record response =
  status_code_of :: int
  reason :: string

text \<open>
  An \<open>APIError\<close> keeps the response object it was given, not a copy. \<open>'r\<close> is what stands
  for that object: its address among the response objects of the program, or, for a
  method that runs at one moment, the attributes the object has at that moment.
\<close>

record 'r api_error = exception +
  response :: "'r option"
  explanation :: "string option"

text \<open>
  \<open>APIError.__init__\<close>, inherited unchanged by \<open>NotFound\<close> and \<open>ImageNotFound\<close>; \<open>c\<close> is the
  class being instantiated.
\<close>

definition APIError_init ::
  "exc_class \<Rightarrow> string \<Rightarrow> 'r option \<Rightarrow> string option \<Rightarrow> 'r api_error" where
  "APIError_init c msg resp expl =
     \<lparr>cls = c, message = msg, response = resp, explanation = expl\<rparr>"

definition status_code :: "response api_error \<Rightarrow> int option" where
  "status_code e = (case response e of Some r \<Rightarrow> Some (status_code_of r) | None \<Rightarrow> None)"

definition is_client_error :: "response api_error \<Rightarrow> bool" where
  "is_client_error e = (400 \<le> or_zero (status_code e) \<and> or_zero (status_code e) < 500)"

definition is_server_error :: "response api_error \<Rightarrow> bool" where
  "is_server_error e = (500 \<le> or_zero (status_code e) \<and> or_zero (status_code e) < 600)"

definition is_error :: "response api_error \<Rightarrow> bool" where
  "is_error e = (is_client_error e \<or> is_server_error e)"

text \<open>
  \<open>APIError.__str__\<close>: the local \<open>msg\<close> is rebound by each of the four statements.
\<close>

definition APIError_str :: "response api_error \<Rightarrow> string" where
  "APIError_str e =
     (let msg = Exception_str e;
          msg = (case response e of Some r \<Rightarrow> reason r | None \<Rightarrow> msg);
          msg = (if is_client_error e
                   then str_opt_int (status_code e) @ '' Client Error: '' @ msg
                 else if is_server_error e
                   then str_opt_int (status_code e) @ '' Server Error: '' @ msg
                 else msg);
          msg = (if truthy_str (explanation e)
                   then msg @ '' ('' @ str_opt_str (explanation e) @ '')''
                 else msg)
      in msg)"

text \<open>
  \<open>sep.join(xs)\<close>: the strings of \<open>xs\<close> with \<open>sep\<close> between neighbours.
\<close>

fun str_join :: "string \<Rightarrow> string list \<Rightarrow> string" where
  "str_join sep [] = []"
| "str_join sep [x] = x"
| "str_join sep (x # y # ys) = x @ sep @ str_join sep (y # ys)"

subsection \<open>BuildError, ContainerError, StreamParseError\<close>

text \<open>
  The attribute \<open>msg\<close> of a \<open>BuildError\<close> and of a \<open>StreamParseError\<close> is the field
  \<open>build_msg\<close> and \<open>stream_msg\<close>: \<open>msg\<close> is also the local variable of the two \<open>__str__\<close>
  methods of the module.
\<close>

record build_error = exception +
  build_msg :: string
  build_log :: "string list"

definition BuildError_init :: "string \<Rightarrow> string list \<Rightarrow> build_error" where
  "BuildError_init reason_arg log =
     \<lparr>cls = BuildError, message = reason_arg, build_msg = reason_arg, build_log = log\<rparr>"

text \<open>
  \<open>command\<close> is a \<open>str\<close> or a \<open>list[str]\<close>, \<open>stderr\<close> an iterable of \<open>str\<close>. An
  f-string inserts a \<open>str\<close> as it is; how Python prints any other value (the \<open>repr\<close> of
  a list, of a generator) is the interpreter's business and stays a parameter,
  \<open>repr_seq\<close>.
\<close>

datatype py_value = Str string | Seq "string list"

fun format_value :: "(string list \<Rightarrow> string) \<Rightarrow> py_value \<Rightarrow> string" where
  "format_value repr_seq (Str s) = s"
| "format_value repr_seq (Seq xs) = repr_seq xs"

record 'c container_error = exception +
  container :: 'c
  exit_status :: int
  command :: py_value
  image :: string
  stderr :: "py_value option"

definition ContainerError_init ::
  "(string list \<Rightarrow> string) \<Rightarrow> 'c \<Rightarrow> int \<Rightarrow> py_value \<Rightarrow> string \<Rightarrow> py_value option
     \<Rightarrow> 'c container_error" where
  "ContainerError_init repr_seq container_arg exit_status_arg command_arg image_arg stderr_arg =
     (let err = (case stderr_arg of
                   Some s \<Rightarrow> '': '' @ format_value repr_seq s
                 | None \<Rightarrow> []);
          msg = ''Command '' @ [CHR 0x27] @ format_value repr_seq command_arg @ [CHR 0x27]
                @ '' in image '' @ [CHR 0x27] @ image_arg @ [CHR 0x27]
                @ '' returned non-zero exit status '' @ str_int exit_status_arg @ err
      in \<lparr>cls = ContainerError, message = msg,
          container = container_arg, exit_status = exit_status_arg,
          command = command_arg, image = image_arg, stderr = stderr_arg\<rparr>)"

record stream_parse_error = exception +
  stream_msg :: string

definition StreamParseError_init :: "string \<Rightarrow> stream_parse_error" where
  "StreamParseError_init reason_arg =
     \<lparr>cls = StreamParseError, message = reason_arg, stream_msg = reason_arg\<rparr>"

subsection \<open>PodmanConnectionError\<close>

text \<open>
  \<open>environment\<close> is a \<open>dict[str, str]\<close>: the list of its items in iteration order, the
  keys pairwise distinct.

  \<open>original_error\<close> is an exception of any class, of this module or not; \<open>'x\<close> stands for
  that object. \<open>__str__\<close> calls two of its methods, through \<open>bool(...)\<close> in
  \<open>if self.original_error\<close> and through \<open>str(...)\<close>. They are code outside this method
  and may read and change any object of the program, so each is a parameter of the
  model: given the object and the state \<open>'w\<close> of the program's objects at the time of the
  call, it returns its result and the state it leaves.
\<close>

type_synonym env_dict = "(string \<times> string) list"

record 'x connection_error = exception +
  environment :: "env_dict option"
  host :: "string option"
  original_error :: "'x option"

definition PodmanConnectionError_init ::
  "string \<Rightarrow> env_dict option \<Rightarrow> string option \<Rightarrow> 'x option \<Rightarrow> 'x connection_error" where
  "PodmanConnectionError_init msg_arg env h orig =
     \<lparr>cls = PodmanConnectionError, message = msg_arg,
      environment = env, host = h, original_error = orig\<rparr>"

text \<open>The tuple of names the comprehension in \<open>__str__\<close> tests membership in.\<close>

definition relevant_names :: "string list" where
  "relevant_names =
     [''DOCKER_HOST'', ''CONTAINER_HOST'', ''DOCKER_TLS_VERIFY'', ''CONTAINER_TLS_VERIFY'',
      ''DOCKER_CERT_PATH'', ''CONTAINER_CERT_PATH'']"

text \<open>
  The dict comprehension: the items whose key is in the tuple, in iteration order.
\<close>

definition relevant_vars :: "env_dict \<Rightarrow> env_dict" where
  "relevant_vars env = filter (\<lambda>(k, v). k \<in> set relevant_names) env"

text \<open>The \<open>for\<close> loop: one \<open>append\<close> to \<open>msg\<close> for each item.\<close>

definition append_vars :: "string list \<Rightarrow> env_dict \<Rightarrow> string list" where
  "append_vars msg vars = foldl (\<lambda>msg (k, v). msg @ [''  '' @ k @ ''='' @ v]) msg vars"

text \<open>
  The list \<open>msg\<close> that \<open>PodmanConnectionError.__str__\<close> has built when it reaches its
  \<open>return\<close>, and the state the two calls on the cause have left. A \<open>None\<close> and an empty
  dict are both false in \<open>if self.environment\<close>. \<open>bool_of\<close> runs first; \<open>str_of\<close> runs only
  when it returned true, on the state it left.
\<close>

definition PodmanConnectionError_msg ::
  "('x \<Rightarrow> 'w \<Rightarrow> bool \<times> 'w) \<Rightarrow> ('x \<Rightarrow> 'w \<Rightarrow> string \<times> 'w) \<Rightarrow> 'x connection_error \<Rightarrow> 'w
     \<Rightarrow> string list \<times> 'w" where
  "PodmanConnectionError_msg bool_of str_of e w =
     (let msg = [Exception_str e];
          msg = (if truthy_str (host e) then msg @ [''Host: '' @ str_opt_str (host e)] else msg);
          msg = (case environment e of
                   None \<Rightarrow> msg
                 | Some env \<Rightarrow>
                     if env \<noteq> [] then
                       (if relevant_vars env \<noteq> []
                          then append_vars (msg @ [''Environment:'']) (relevant_vars env)
                        else msg)
                     else msg)
      in case original_error e of
           None \<Rightarrow> (msg, w)
         | Some c \<Rightarrow>
             (let (truth, w) = bool_of c w
              in if truth
                   then (let (s, w) = str_of c w in (msg @ [''Caused by: '' @ s], w))
                 else (msg, w)))"

definition PodmanConnectionError_str ::
  "('x \<Rightarrow> 'w \<Rightarrow> bool \<times> 'w) \<Rightarrow> ('x \<Rightarrow> 'w \<Rightarrow> string \<times> 'w) \<Rightarrow> 'x connection_error \<Rightarrow> 'w
     \<Rightarrow> string \<times> 'w" where
  "PodmanConnectionError_str bool_of str_of e w =
     (let (msg, w) = PodmanConnectionError_msg bool_of str_of e w
      in (str_join '' | '' msg, w))"

subsection \<open>Rendering any error of the module\<close>

type_synonym addr = nat

text \<open>
  The state of the program's objects: the response objects by address, each with the
  attributes it has now (the transport layer that created a response may still hold
  it), and in \<open>others\<close> the state of every other object.
\<close>

record 's world =
  responses :: "addr \<Rightarrow> response"
  others :: 's

text \<open>The attributes a method of the error \<open>e\<close> reads while the responses are \<open>rs\<close>.\<close>

definition load :: "(addr \<Rightarrow> response) \<Rightarrow> addr api_error \<Rightarrow> response api_error" where
  "load rs e =
     \<lparr>cls = cls e, message = message e,
      response = (case response e of Some a \<Rightarrow> Some (rs a) | None \<Rightarrow> None),
      explanation = explanation e\<rparr>"

text \<open>
  \<open>str(e)\<close> for an \<open>APIError\<close> in the state \<open>w\<close>: \<open>APIError.__str__\<close> on the attributes
  the response has in \<open>w\<close>; the state is left as it is.
\<close>

definition APIError_call_str :: "addr api_error \<Rightarrow> 's world \<Rightarrow> string \<times> 's world" where
  "APIError_call_str e w = (APIError_str (load (responses w) e), w)"

text \<open>
  An error object of the module, by the class that gives it its attributes; \<open>Marker\<close> is
  an object of a class with no attributes of its own (\<open>DockerException\<close>, \<open>PodmanError\<close>,
  \<open>InvalidArgument\<close>). An \<open>APIError\<close> refers to its response by address.
\<close>

datatype ('c, 'x) error_obj =
    OfAPIError "addr api_error"
  | OfBuildError build_error
  | OfContainerError "'c container_error"
  | OfPodmanConnectionError "'x connection_error"
  | OfStreamParseError stream_parse_error
  | Marker exception

text \<open>
  A call \<open>str(e)\<close> in the state \<open>w\<close>: the rendered string and the state the call leaves.
  It runs the \<open>__str__\<close> nearest to the object's class: \<open>APIError.__str__\<close> for \<open>APIError\<close>,
  \<open>NotFound\<close> and \<open>ImageNotFound\<close>, \<open>PodmanConnectionError.__str__\<close> for that class, the
  inherited one for the rest. The bodies in the module assign to no attribute and
  change no object they were given (each rebinds its local \<open>msg\<close> or appends to a list it
  created, and the comprehension builds a new dict), so the only steps that act on the
  state are the two calls on the cause of a \<open>PodmanConnectionError\<close>.
\<close>

fun call_str ::
  "('x \<Rightarrow> 's world \<Rightarrow> bool \<times> 's world) \<Rightarrow> ('x \<Rightarrow> 's world \<Rightarrow> string \<times> 's world)
     \<Rightarrow> ('c, 'x) error_obj \<Rightarrow> 's world \<Rightarrow> string \<times> 's world" where
  "call_str bool_of str_of (OfAPIError e) w = APIError_call_str e w"
| "call_str bool_of str_of (OfBuildError e) w = (Exception_str e, w)"
| "call_str bool_of str_of (OfContainerError e) w = (Exception_str e, w)"
| "call_str bool_of str_of (OfPodmanConnectionError e) w =
     PodmanConnectionError_str bool_of str_of e w"
| "call_str bool_of str_of (OfStreamParseError e) w = (Exception_str e, w)"
| "call_str bool_of str_of (Marker e) w = (Exception_str e, w)"



subsection \<open>Exceptions used as causes in the examples\<close>


text \<open>
  A plain exception, kept as its message: its class defines neither \<open>__bool__\<close> nor
  \<open>__len__\<close>, so \<open>bool\<close> is true; \<open>str\<close> returns the message; neither changes anything.
\<close>

definition plain_bool :: "string \<Rightarrow> 'w \<Rightarrow> bool \<times> 'w" where
  "plain_bool c w = (True, w)"

definition plain_str :: "string \<Rightarrow> 'w \<Rightarrow> string \<times> 'w" where
  "plain_str c w = (c, w)"

text \<open>An exception of a class whose \<open>__bool__\<close> returns \<open>False\<close>.\<close>

definition falsy_bool :: "string \<Rightarrow> 'w \<Rightarrow> bool \<times> 'w" where
  "falsy_bool c w = (False, w)"




subsection \<open>The renderings in the words of the specification\<close>

text \<open>
  The specification's algorithm for a transport error: start from the message; a
  response replaces it by its reason; a client error or else a server error puts the
  status code and the class before it; an explanation that is present is appended in
  parentheses.
\<close>

definition render_spec :: "response api_error \<Rightarrow> string" where
  "render_spec e =
     (let msg = message e;
          msg = (case response e of Some r \<Rightarrow> reason r | None \<Rightarrow> msg);
          msg = (if is_client_error e
                   then str_opt_int (status_code e) @ '' Client Error: '' @ msg
                 else if is_server_error e
                   then str_opt_int (status_code e) @ '' Server Error: '' @ msg
                 else msg);
          msg = (case explanation e of Some x \<Rightarrow> msg @ '' ('' @ x @ '')'' | None \<Rightarrow> msg)
      in msg)"

text \<open>The six names of the specification's allow-list, in its two families.\<close>

definition spec_allow_list :: "string set" where
  "spec_allow_list =
     {''DOCKER_HOST'', ''DOCKER_TLS_VERIFY'', ''DOCKER_CERT_PATH'',
      ''CONTAINER_HOST'', ''CONTAINER_TLS_VERIFY'', ''CONTAINER_CERT_PATH''}"

text \<open>
  The specification's algorithm for a connection error: the message; a host that is
  present gives a \<open>Host:\<close> segment; the surviving entries give one segment, the header
  and one line for each entry, joined by newlines; a cause that is present gives a
  \<open>Caused by:\<close> segment with its rendering; the segments are joined by \<open>" | "\<close>.
\<close>

definition environment_segment_spec :: "env_dict \<Rightarrow> string" where
  "environment_segment_spec vars =
     str_join [CHR 0x0A] (''Environment:'' # map (\<lambda>(k, v). ''  '' @ k @ ''='' @ v) vars)"

definition connection_render_spec ::
  "('x \<Rightarrow> 'w \<Rightarrow> string \<times> 'w) \<Rightarrow> 'x connection_error \<Rightarrow> 'w \<Rightarrow> string" where
  "connection_render_spec str_of e w =
     str_join '' | ''
       ([message e]
        @ (case host e of Some h \<Rightarrow> [''Host: '' @ h] | None \<Rightarrow> [])
        @ (case environment e of
             Some env \<Rightarrow>
               if filter (\<lambda>(k, v). k \<in> spec_allow_list) env \<noteq> []
                 then [environment_segment_spec (filter (\<lambda>(k, v). k \<in> spec_allow_list) env)]
               else []
           | None \<Rightarrow> [])
        @ (case original_error e of
             Some c \<Rightarrow> [''Caused by: '' @ fst (str_of c w)]
           | None \<Rightarrow> []))"

section \<open>Properties\<close>

lemmas str_int_eval = str_int_def str_opt_int_def str_nat.simps digit_char_def

subsection \<open>Status classes\<close>

lemma or_zero_Some: "or_zero (Some c) = c"
  by (simp add: or_zero_def)

lemma or_zero_None: "or_zero None = 0"
  by (simp add: or_zero_def)

text \<open>
  C4. With a response of status code \<open>c\<close>, \<open>is_client_error\<close> holds exactly when
  \<open>400 \<le> c < 500\<close> and \<open>is_server_error\<close> exactly when \<open>500 \<le> c < 600\<close>; both fail when
  \<open>c < 400\<close> or \<open>c \<ge> 600\<close>. Without a response the status code is absent, counts as
  \<open>0\<close>, and both fail. \<open>is_error\<close> is the disjunction of the two.
\<close>

theorem status_code_classes:
  "(response e = Some r \<longrightarrow>
      status_code e = Some (status_code_of r) \<and>
      (is_client_error e \<longleftrightarrow> 400 \<le> status_code_of r \<and> status_code_of r < 500) \<and>
      (is_server_error e \<longleftrightarrow> 500 \<le> status_code_of r \<and> status_code_of r < 600) \<and>
      (status_code_of r < 400 \<or> 600 \<le> status_code_of r \<longrightarrow>
         \<not> is_client_error e \<and> \<not> is_server_error e)) \<and>
   (response e = None \<longrightarrow>
      status_code e = None \<and> or_zero (status_code e) = 0 \<and>
      \<not> is_client_error e \<and> \<not> is_server_error e \<and> \<not> is_error e) \<and>
   (is_error e \<longleftrightarrow> is_client_error e \<or> is_server_error e)"
  by (auto simp: is_client_error_def is_server_error_def is_error_def status_code_def
      or_zero_Some or_zero_None)

theorem status_code_classes_witness:
  "is_client_error
     (APIError_init APIError ''m'' (Some \<lparr>status_code_of = 404, reason = ''Not Found''\<rparr>) None) \<and>
   \<not> is_server_error
     (APIError_init APIError ''m'' (Some \<lparr>status_code_of = 404, reason = ''Not Found''\<rparr>) None) \<and>
   is_server_error
     (APIError_init APIError ''m'' (Some \<lparr>status_code_of = 599, reason = ''x''\<rparr>) None) \<and>
   \<not> is_error
     (APIError_init APIError ''m'' (Some \<lparr>status_code_of = 600, reason = ''x''\<rparr>) None) \<and>
   \<not> is_error
     (APIError_init APIError ''m'' (Some \<lparr>status_code_of = 399, reason = ''x''\<rparr>) None) \<and>
   \<not> is_error (APIError_init APIError ''m'' None None)"
  using
    status_code_classes
      [of "APIError_init APIError ''m'' (Some \<lparr>status_code_of = 404, reason = ''Not Found''\<rparr>) None"
          "\<lparr>status_code_of = 404, reason = ''Not Found''\<rparr>"]
    status_code_classes
      [of "APIError_init APIError ''m'' (Some \<lparr>status_code_of = 599, reason = ''x''\<rparr>) None"
          "\<lparr>status_code_of = 599, reason = ''x''\<rparr>"]
    status_code_classes
      [of "APIError_init APIError ''m'' (Some \<lparr>status_code_of = 600, reason = ''x''\<rparr>) None"
          "\<lparr>status_code_of = 600, reason = ''x''\<rparr>"]
    status_code_classes
      [of "APIError_init APIError ''m'' (Some \<lparr>status_code_of = 399, reason = ''x''\<rparr>) None"
          "\<lparr>status_code_of = 399, reason = ''x''\<rparr>"]
    status_code_classes [of "APIError_init APIError ''m'' None None"]
  by (simp add: APIError_init_def)

subsection \<open>Rendering a transport error\<close>

text \<open>
  Where the code leaves the specification's algorithm: an explanation that is present
  but empty is false in \<open>if self.explanation\<close>, so nothing is appended, while the
  algorithm as worded appends \<open>" ()"\<close>.
\<close>

theorem APIError_str_empty_explanation:
  "APIError_str (APIError_init APIError ''gone'' None (Some [])) = ''gone'' \<and>
   render_spec (APIError_init APIError ''gone'' None (Some [])) = ''gone ()'' \<and>
   APIError_str (APIError_init APIError ''gone'' None (Some []))
     \<noteq> render_spec (APIError_init APIError ''gone'' None (Some []))"
  by (simp add: APIError_str_def render_spec_def APIError_init_def Exception_str_def
      is_client_error_def is_server_error_def status_code_def or_zero_None truthy_str_def)

text \<open>
  C1, amended. \<open>APIError.__str__\<close> starts from the constructor message; a response
  replaces it by \<open>response.reason\<close>; a client error puts \<open>"{status_code} Client Error: "\<close>
  before it, or else a server error \<open>"{status_code} Server Error: "\<close>; an explanation
  that is present and not empty is appended as \<open>" ({explanation})"\<close>. Status 404 with
  reason \<open>Not Found\<close> renders \<open>404 Client Error: Not Found\<close>, and with the explanation
  \<open>no such container\<close> it renders \<open>404 Client Error: Not Found (no such container)\<close>.
\<close>

theorem APIError_str_algorithm:
  "APIError_str e =
     (let msg = message e;
          msg = (case response e of Some r \<Rightarrow> reason r | None \<Rightarrow> msg);
          msg = (if is_client_error e
                   then str_opt_int (status_code e) @ '' Client Error: '' @ msg
                 else if is_server_error e
                   then str_opt_int (status_code e) @ '' Server Error: '' @ msg
                 else msg);
          msg = (case explanation e of
                   Some x \<Rightarrow> if x = [] then msg else msg @ '' ('' @ x @ '')''
                 | None \<Rightarrow> msg)
      in msg) \<and>
   APIError_str (APIError_init c m (Some \<lparr>status_code_of = 404, reason = ''Not Found''\<rparr>) None)
     = ''404 Client Error: Not Found'' \<and>
   APIError_str (APIError_init c m (Some \<lparr>status_code_of = 404, reason = ''Not Found''\<rparr>)
       (Some ''no such container''))
     = ''404 Client Error: Not Found (no such container)''"
  by (simp add: APIError_str_def APIError_init_def Exception_str_def is_client_error_def
      status_code_def or_zero_Some truthy_str_def str_opt_str_def str_int_eval Let_def
      split: option.splits)

text \<open>
  C6. An \<open>APIError\<close> constructed with a message and \<open>response=None\<close> renders as the
  message itself. Its status code is absent and it is neither a client nor a server
  error, so whatever the explanation, the rendering begins with the message and has no
  status prefix.
\<close>

theorem no_response_renders_message:
  "APIError_str (APIError_init c m None None) = m \<and>
   status_code (APIError_init c m None x) = None \<and>
   \<not> is_client_error (APIError_init c m None x) \<and>
   \<not> is_server_error (APIError_init c m None x) \<and>
   APIError_str (APIError_init c m None x) =
     m @ (if truthy_str x then '' ('' @ str_opt_str x @ '')'' else [])"
  by (simp add: APIError_str_def APIError_init_def Exception_str_def
      is_client_error_def is_server_error_def status_code_def or_zero_None truthy_str_def)

text \<open>
  C9. An explanation equal to the empty string renders as \<open>explanation=None\<close> does,
  without the parenthesised suffix: the test is the truth value of the explanation, not
  its presence. An explanation that is not empty is appended.
\<close>

theorem empty_explanation_as_none:
  "APIError_str (e\<lparr>explanation := Some []\<rparr>) = APIError_str (e\<lparr>explanation := None\<rparr>) \<and>
   APIError_str (APIError_init c m r (Some [])) = APIError_str (APIError_init c m r None) \<and>
   APIError_str (e\<lparr>explanation := Some (a # x)\<rparr>)
     = APIError_str (e\<lparr>explanation := None\<rparr>) @ '' ('' @ (a # x) @ '')''"
  by (simp add: APIError_str_def APIError_init_def Exception_str_def
      is_client_error_def is_server_error_def status_code_def truthy_str_def str_opt_str_def
      Let_def)

subsection \<open>The not-found classes\<close>

lemma issubclass_APIError: "issubclass NotFound APIError" "issubclass ImageNotFound APIError"
  by (simp_all add: issubclass.simps)

lemma not_issubclass_NotFound: "\<not> issubclass ImageNotFound NotFound"
  by (simp add: issubclass.simps)

text \<open>
  C7. \<open>NotFound\<close> and \<open>ImageNotFound\<close> are subclasses of \<open>APIError\<close>, so every instance
  of either is an instance of \<open>APIError\<close>; and when such an instance holds a response
  with a status code from 400 up to 599, \<open>is_error\<close>, which neither class overrides,
  returns true.
\<close>

theorem not_found_classes:
  "issubclass NotFound APIError \<and> issubclass ImageNotFound APIError \<and>
   (cls e = NotFound \<or> cls e = ImageNotFound \<longrightarrow>
      isinstance e APIError \<and>
      (\<forall>r. response e = Some r \<and> 400 \<le> status_code_of r \<and> status_code_of r < 600 \<longrightarrow>
         is_error e))"
  by (auto simp: isinstance_def issubclass_APIError is_error_def is_client_error_def
      is_server_error_def status_code_def or_zero_def)

theorem not_found_classes_witness:
  "isinstance
     (APIError_init NotFound ''m'' (Some \<lparr>status_code_of = 404, reason = ''Not Found''\<rparr>) None)
     APIError \<and>
   is_error
     (APIError_init NotFound ''m'' (Some \<lparr>status_code_of = 404, reason = ''Not Found''\<rparr>) None) \<and>
   isinstance
     (APIError_init ImageNotFound ''m'' (Some \<lparr>status_code_of = 500, reason = ''Internal''\<rparr>) None)
     APIError \<and>
   is_error
     (APIError_init ImageNotFound ''m'' (Some \<lparr>status_code_of = 500, reason = ''Internal''\<rparr>) None)"
  using
    not_found_classes
      [of "APIError_init NotFound ''m'' (Some \<lparr>status_code_of = 404, reason = ''Not Found''\<rparr>) None"]
    not_found_classes
      [of "APIError_init ImageNotFound ''m'' (Some \<lparr>status_code_of = 500, reason = ''Internal''\<rparr>) None"]
  by (simp add: APIError_init_def)

text \<open>
  C10. The base class of \<open>ImageNotFound\<close> is \<open>APIError\<close>, and \<open>ImageNotFound\<close> is not a
  subclass of \<open>NotFound\<close>: an object created from \<open>ImageNotFound\<close> is no instance of
  \<open>NotFound\<close>, which is the test an \<open>except NotFound\<close> clause makes, while it is an
  instance of \<open>APIError\<close>.
\<close>

theorem image_not_found_not_a_not_found:
  "base ImageNotFound = Some APIError \<and>
   \<not> issubclass ImageNotFound NotFound \<and>
   (cls e = ImageNotFound \<longrightarrow> \<not> isinstance e NotFound \<and> isinstance e APIError)"
  by (simp add: isinstance_def not_issubclass_NotFound issubclass_APIError)

theorem image_not_found_not_a_not_found_witness:
  "\<not> isinstance
       (APIError_init ImageNotFound ''no such image''
          (Some \<lparr>status_code_of = 404, reason = ''Not Found''\<rparr>) None)
       NotFound"
  using image_not_found_not_a_not_found
    [of "APIError_init ImageNotFound ''no such image''
          (Some \<lparr>status_code_of = 404, reason = ''Not Found''\<rparr>) None"]
  by (simp add: APIError_init_def)

subsection \<open>ContainerError\<close>

text \<open>
  C5. \<open>ContainerError.__init__\<close> composes
  \<open>Command '{command}' in image '{image}' returned non-zero exit status {exit_status}\<close>,
  followed by \<open>: {stderr}\<close> when \<open>stderr\<close> is given, and hands it to the base
  constructor; it is what the error renders as, also after the attributes have been
  assigned other values. The five arguments are kept as attributes. For \<open>echo hi\<close>,
  \<open>alpine\<close> and status 1 the rendering is
  \<open>Command 'echo hi' in image 'alpine' returned non-zero exit status 1\<close>, and with the
  \<open>stderr\<close> text \<open>boom\<close> the same followed by \<open>: boom\<close>.
\<close>

theorem container_error_message:
  "fst (call_str bool_of str_of (OfContainerError (ContainerError_init f c n cmd img None)) w)
     = ''Command '' @ [CHR 0x27] @ format_value f cmd @ [CHR 0x27] @ '' in image '' @ [CHR 0x27]
       @ img @ [CHR 0x27] @ '' returned non-zero exit status '' @ str_int n \<and>
   fst (call_str bool_of str_of (OfContainerError (ContainerError_init f c n cmd img (Some s))) w)
     = fst (call_str bool_of str_of (OfContainerError (ContainerError_init f c n cmd img None)) w)
       @ '': '' @ format_value f s \<and>
   fst (call_str bool_of str_of (OfContainerError
       ((ContainerError_init f c n cmd img err)
          \<lparr>container := c', exit_status := n', command := cmd', image := img', stderr := err'\<rparr>))
       w')
     = fst (call_str bool_of str_of (OfContainerError (ContainerError_init f c n cmd img err)) w) \<and>
   container (ContainerError_init f c n cmd img err) = c \<and>
   exit_status (ContainerError_init f c n cmd img err) = n \<and>
   command (ContainerError_init f c n cmd img err) = cmd \<and>
   image (ContainerError_init f c n cmd img err) = img \<and>
   stderr (ContainerError_init f c n cmd img err) = err \<and>
   fst (call_str bool_of str_of
         (OfContainerError (ContainerError_init f c 1 (Str ''echo hi'') ''alpine'' None)) w)
     = ''Command 'echo hi' in image 'alpine' returned non-zero exit status 1'' \<and>
   fst (call_str bool_of str_of
         (OfContainerError
            (ContainerError_init f c 1 (Str ''echo hi'') ''alpine'' (Some (Str ''boom'')))) w)
     = ''Command 'echo hi' in image 'alpine' returned non-zero exit status 1: boom''"
  by (simp add: ContainerError_init_def Exception_str_def str_int_eval)

subsection \<open>Rendering a connection error\<close>

lemma set_relevant_names: "set relevant_names = spec_allow_list"
  by (auto simp: relevant_names_def spec_allow_list_def)

lemma relevant_vars_filter:
  "relevant_vars env = filter (\<lambda>(k, v). k \<in> spec_allow_list) env"
  by (simp add: relevant_vars_def set_relevant_names)

lemma append_vars_map:
  "append_vars segs vars = segs @ map (\<lambda>(k, v). ''  '' @ k @ ''='' @ v) vars"
  unfolding append_vars_def
  by (induction vars arbitrary: segs) (auto simp: case_prod_beta)

text \<open>The segments \<open>__str__\<close> has built, and the state it leaves.\<close>

lemma PodmanConnectionError_msg_segments:
  "fst (PodmanConnectionError_msg bool_of str_of e w) =
     [message e]
     @ (case host e of Some h \<Rightarrow> if h = [] then [] else [''Host: '' @ h] | None \<Rightarrow> [])
     @ (case environment e of
          Some env \<Rightarrow>
            if relevant_vars env = [] then []
            else ''Environment:'' # map (\<lambda>(k, v). ''  '' @ k @ ''='' @ v) (relevant_vars env)
        | None \<Rightarrow> [])
     @ (case original_error e of
          Some c \<Rightarrow>
            if fst (bool_of c w) then [''Caused by: '' @ fst (str_of c (snd (bool_of c w)))]
            else []
        | None \<Rightarrow> [])"
  by (auto simp: PodmanConnectionError_msg_def Exception_str_def truthy_str_def str_opt_str_def
      append_vars_map relevant_vars_def Let_def case_prod_beta split: option.splits)

lemma PodmanConnectionError_msg_state:
  "snd (PodmanConnectionError_msg bool_of str_of e w) =
     (case original_error e of
        Some c \<Rightarrow>
          if fst (bool_of c w) then snd (str_of c (snd (bool_of c w))) else snd (bool_of c w)
      | None \<Rightarrow> w)"
  by (simp add: PodmanConnectionError_msg_def Let_def case_prod_beta split: option.splits)

lemma PodmanConnectionError_str_fst:
  "fst (PodmanConnectionError_str bool_of str_of e w) =
     str_join '' | '' (fst (PodmanConnectionError_msg bool_of str_of e w))"
  by (simp add: PodmanConnectionError_str_def case_prod_beta)

lemma PodmanConnectionError_str_snd:
  "snd (PodmanConnectionError_str bool_of str_of e w) =
     snd (PodmanConnectionError_msg bool_of str_of e w)"
  by (simp add: PodmanConnectionError_str_def case_prod_beta)

text \<open>
  Where the code leaves the specification's algorithm. For the specification's own
  example the algorithm as worded gives the header and the entry as one segment joined
  by a newline; the code appends the header and the entry to the list one by one, so
  \<open>" | "\<close> stands between them. A host that is present but empty is false in
  \<open>if self.host\<close>, so it gives no \<open>Host:\<close> segment. And a cause that is present but false
  in \<open>if self.original_error\<close> gives no \<open>Caused by:\<close> segment.
\<close>

theorem PodmanConnectionError_str_not_spec:
  "connection_render_spec plain_str
     (PodmanConnectionError_init ''cannot connect''
        (Some [(''DOCKER_HOST'', ''tcp://x''), (''UNRELATED'', ''y'')])
        (Some ''unix:///var/run/podman.sock'') None) ()
     = ''cannot connect | Host: unix:///var/run/podman.sock | Environment:'' @ [CHR 0x0A]
         @ ''  DOCKER_HOST=tcp://x'' \<and>
   fst (PodmanConnectionError_str plain_bool plain_str
     (PodmanConnectionError_init ''cannot connect''
        (Some [(''DOCKER_HOST'', ''tcp://x''), (''UNRELATED'', ''y'')])
        (Some ''unix:///var/run/podman.sock'') None) ())
     \<noteq> ''cannot connect | Host: unix:///var/run/podman.sock | Environment:'' @ [CHR 0x0A]
         @ ''  DOCKER_HOST=tcp://x'' \<and>
   connection_render_spec plain_str (PodmanConnectionError_init ''down'' None (Some []) None) ()
     = ''down | Host: '' \<and>
   fst (PodmanConnectionError_str plain_bool plain_str
         (PodmanConnectionError_init ''down'' None (Some []) None) ())
     = ''down'' \<and>
   connection_render_spec plain_str
       (PodmanConnectionError_init ''down'' None None (Some ''boom'')) ()
     = ''down | Caused by: boom'' \<and>
   fst (PodmanConnectionError_str falsy_bool plain_str
         (PodmanConnectionError_init ''down'' None None (Some ''boom'')) ())
     = ''down''"
  by (simp add: PodmanConnectionError_str_fst PodmanConnectionError_msg_segments
      connection_render_spec_def environment_segment_spec_def spec_allow_list_def
      PodmanConnectionError_init_def relevant_vars_def relevant_names_def
      plain_bool_def plain_str_def falsy_bool_def)

text \<open>
  C2, amended. \<open>PodmanConnectionError.__str__\<close> produces, in this order: the message;
  for a host that is present and not empty, the segment \<open>Host: {host}\<close>; when an entry of
  the environment has an allow-listed key, the segment \<open>Environment:\<close> and then one
  segment \<open>"  {key}={value}"\<close> for each such entry, in the iteration order of the
  mapping; for a cause that is present and true (\<open>bool(original_error)\<close>), the segment
  \<open>Caused by: {str(original_error)}\<close>; and it joins all these segments with \<open>" | "\<close>. For
  the message \<open>cannot connect\<close>, the host \<open>unix:///var/run/podman.sock\<close> and the
  environment with \<open>DOCKER_HOST\<close> and \<open>UNRELATED\<close> it returns the four segments
  \<open>cannot connect | Host: unix:///var/run/podman.sock | Environment: |   DOCKER_HOST=tcp://x\<close>.
\<close>

theorem PodmanConnectionError_str_segments:
  "fst (PodmanConnectionError_str bool_of str_of e w) =
     str_join '' | ''
       ([message e]
        @ (case host e of Some h \<Rightarrow> if h = [] then [] else [''Host: '' @ h] | None \<Rightarrow> [])
        @ (case environment e of
             Some env \<Rightarrow>
               if filter (\<lambda>(k, v). k \<in> spec_allow_list) env = [] then []
               else ''Environment:'' #
                 map (\<lambda>(k, v). ''  '' @ k @ ''='' @ v)
                   (filter (\<lambda>(k, v). k \<in> spec_allow_list) env)
           | None \<Rightarrow> [])
        @ (case original_error e of
             Some c \<Rightarrow>
               if fst (bool_of c w)
                 then [''Caused by: '' @ fst (str_of c (snd (bool_of c w)))]
               else []
           | None \<Rightarrow> [])) \<and>
   fst (PodmanConnectionError_str bool_of str_of
     (PodmanConnectionError_init ''cannot connect''
        (Some [(''DOCKER_HOST'', ''tcp://x''), (''UNRELATED'', ''y'')])
        (Some ''unix:///var/run/podman.sock'') None) w)
     = ''cannot connect | Host: unix:///var/run/podman.sock | Environment: |   DOCKER_HOST=tcp://x''"
proof
  show "fst (PodmanConnectionError_str bool_of str_of e w) =
     str_join '' | ''
       ([message e]
        @ (case host e of Some h \<Rightarrow> if h = [] then [] else [''Host: '' @ h] | None \<Rightarrow> [])
        @ (case environment e of
             Some env \<Rightarrow>
               if filter (\<lambda>(k, v). k \<in> spec_allow_list) env = [] then []
               else ''Environment:'' #
                 map (\<lambda>(k, v). ''  '' @ k @ ''='' @ v)
                   (filter (\<lambda>(k, v). k \<in> spec_allow_list) env)
           | None \<Rightarrow> [])
        @ (case original_error e of
             Some c \<Rightarrow>
               if fst (bool_of c w)
                 then [''Caused by: '' @ fst (str_of c (snd (bool_of c w)))]
               else []
           | None \<Rightarrow> []))"
    by (simp only: PodmanConnectionError_str_fst PodmanConnectionError_msg_segments
        relevant_vars_filter)
next
  show "fst (PodmanConnectionError_str bool_of str_of
     (PodmanConnectionError_init ''cannot connect''
        (Some [(''DOCKER_HOST'', ''tcp://x''), (''UNRELATED'', ''y'')])
        (Some ''unix:///var/run/podman.sock'') None) w)
     = ''cannot connect | Host: unix:///var/run/podman.sock | Environment: |   DOCKER_HOST=tcp://x''"
    by (simp add: PodmanConnectionError_str_fst PodmanConnectionError_msg_segments
        PodmanConnectionError_init_def relevant_vars_def relevant_names_def)
qed

text \<open>
  Where the code leaves the claim about environments that agree: two environments
  that are the same mapping, with the same two allow-listed entries and no others,
  render differently when they iterate in different orders.
\<close>

theorem environment_order_matters:
  "map_of [(''DOCKER_HOST'', ''a''), (''CONTAINER_HOST'', ''b'')]
     = map_of [(''CONTAINER_HOST'', ''b''), (''DOCKER_HOST'', ''a'')] \<and>
   fst (PodmanConnectionError_str plain_bool plain_str
         (PodmanConnectionError_init ''m''
            (Some [(''DOCKER_HOST'', ''a''), (''CONTAINER_HOST'', ''b'')]) None None) ())
     = ''m | Environment: |   DOCKER_HOST=a |   CONTAINER_HOST=b'' \<and>
   fst (PodmanConnectionError_str plain_bool plain_str
         (PodmanConnectionError_init ''m''
            (Some [(''CONTAINER_HOST'', ''b''), (''DOCKER_HOST'', ''a'')]) None None) ())
     = ''m | Environment: |   CONTAINER_HOST=b |   DOCKER_HOST=a'' \<and>
   fst (PodmanConnectionError_str plain_bool plain_str
         (PodmanConnectionError_init ''m''
            (Some [(''DOCKER_HOST'', ''a''), (''CONTAINER_HOST'', ''b'')]) None None) ())
     \<noteq> fst (PodmanConnectionError_str plain_bool plain_str
         (PodmanConnectionError_init ''m''
            (Some [(''CONTAINER_HOST'', ''b''), (''DOCKER_HOST'', ''a'')]) None None) ())"
proof -
  have "map_of [(''DOCKER_HOST'', ''a''), (''CONTAINER_HOST'', ''b'')]
     = map_of [(''CONTAINER_HOST'', ''b''), (''DOCKER_HOST'', ''a'')]"
    by (rule ext) simp
  then show ?thesis
    by (simp add: PodmanConnectionError_str_fst PodmanConnectionError_msg_segments
        PodmanConnectionError_init_def relevant_vars_def relevant_names_def)
qed

text \<open>
  C3, amended. The rendering surfaces only entries of the environment whose key is one
  of the six allow-listed names. Two environments whose allow-listed entries are the
  same and come in the same iteration order render identically, and leave the same
  state, whatever their other entries are; in particular an entry with a key outside
  the list can be dropped without any change to the rendering. And compared with the
  rendering without an environment, the only segments an environment adds are the
  header and the \<open>"  {key}={value}"\<close> segments of its entries with an allow-listed key.
\<close>

theorem environment_allow_list:
  "(filter (\<lambda>(k, v). k \<in> spec_allow_list) env1 = filter (\<lambda>(k, v). k \<in> spec_allow_list) env2 \<longrightarrow>
      PodmanConnectionError_str bool_of str_of (e\<lparr>environment := Some env1\<rparr>) w
        = PodmanConnectionError_str bool_of str_of (e\<lparr>environment := Some env2\<rparr>) w) \<and>
   (k \<notin> spec_allow_list \<longrightarrow>
      PodmanConnectionError_str bool_of str_of (e\<lparr>environment := Some (xs @ (k, v) # ys)\<rparr>) w
        = PodmanConnectionError_str bool_of str_of (e\<lparr>environment := Some (xs @ ys)\<rparr>) w) \<and>
   set (fst (PodmanConnectionError_msg bool_of str_of (e\<lparr>environment := Some env\<rparr>) w))
     \<subseteq> set (fst (PodmanConnectionError_msg bool_of str_of (e\<lparr>environment := None\<rparr>) w))
       \<union> {''Environment:''}
       \<union> {''  '' @ k' @ ''='' @ v' | k' v'. (k', v') \<in> set env \<and> k' \<in> spec_allow_list}"
proof -
  have eq: "PodmanConnectionError_str bool_of str_of (e\<lparr>environment := Some a\<rparr>) w
      = PodmanConnectionError_str bool_of str_of (e\<lparr>environment := Some b\<rparr>) w"
    if "relevant_vars a = relevant_vars b" for a b
    using that
    by (simp add: prod_eq_iff PodmanConnectionError_str_fst PodmanConnectionError_str_snd
        PodmanConnectionError_msg_segments PodmanConnectionError_msg_state)
  have drop: "relevant_vars (xs @ (k, v) # ys) = relevant_vars (xs @ ys)"
    if "k \<notin> spec_allow_list"
    using that by (simp add: relevant_vars_filter)
  have sub: "set (fst (PodmanConnectionError_msg bool_of str_of (e\<lparr>environment := Some env\<rparr>) w))
     \<subseteq> set (fst (PodmanConnectionError_msg bool_of str_of (e\<lparr>environment := None\<rparr>) w))
       \<union> {''Environment:''}
       \<union> {''  '' @ k' @ ''='' @ v' | k' v'. (k', v') \<in> set env \<and> k' \<in> spec_allow_list}"
    by (auto simp: PodmanConnectionError_msg_segments relevant_vars_filter split: option.splits)
  have first: "filter (\<lambda>(k, v). k \<in> spec_allow_list) env1
        = filter (\<lambda>(k, v). k \<in> spec_allow_list) env2 \<longrightarrow>
      PodmanConnectionError_str bool_of str_of (e\<lparr>environment := Some env1\<rparr>) w
        = PodmanConnectionError_str bool_of str_of (e\<lparr>environment := Some env2\<rparr>) w"
    using eq [of env1 env2] by (simp only: relevant_vars_filter) blast
  have second: "k \<notin> spec_allow_list \<longrightarrow>
      PodmanConnectionError_str bool_of str_of (e\<lparr>environment := Some (xs @ (k, v) # ys)\<rparr>) w
        = PodmanConnectionError_str bool_of str_of (e\<lparr>environment := Some (xs @ ys)\<rparr>) w"
    using eq [OF drop] by blast
  from first second sub show ?thesis
    by (intro conjI)
qed

theorem environment_allow_list_witness:
  "filter (\<lambda>(k, v). k \<in> spec_allow_list) [(''DOCKER_HOST'', ''tcp://x''), (''UNRELATED'', ''y'')]
     = filter (\<lambda>(k, v). k \<in> spec_allow_list)
         [(''AWS_SECRET'', ''hunter2''), (''DOCKER_HOST'', ''tcp://x'')] \<and>
   PodmanConnectionError_str plain_bool plain_str
     (PodmanConnectionError_init ''cannot connect''
        (Some [(''DOCKER_HOST'', ''tcp://x''), (''UNRELATED'', ''y'')]) None (Some ''refused'')) ()
     = PodmanConnectionError_str plain_bool plain_str
     (PodmanConnectionError_init ''cannot connect''
        (Some [(''AWS_SECRET'', ''hunter2''), (''DOCKER_HOST'', ''tcp://x'')]) None
        (Some ''refused'')) () \<and>
   ''UNRELATED'' \<notin> spec_allow_list \<and>
   PodmanConnectionError_str plain_bool plain_str
     (PodmanConnectionError_init ''cannot connect''
        (Some [(''DOCKER_HOST'', ''tcp://x''), (''UNRELATED'', ''y'')]) None (Some ''refused'')) ()
     = PodmanConnectionError_str plain_bool plain_str
     (PodmanConnectionError_init ''cannot connect'' (Some [(''DOCKER_HOST'', ''tcp://x'')]) None
        (Some ''refused'')) ()"
  using environment_allow_list
    [where ?env1.0 = "[(''DOCKER_HOST'', ''tcp://x''), (''UNRELATED'', ''y'')]"
       and ?env2.0 = "[(''AWS_SECRET'', ''hunter2''), (''DOCKER_HOST'', ''tcp://x'')]"
       and e = "PodmanConnectionError_init ''cannot connect'' None None (Some ''refused'')"
       and bool_of = plain_bool and str_of = plain_str and w = "()"
       and k = "''UNRELATED''" and xs = "[(''DOCKER_HOST'', ''tcp://x'')]" and v = "''y''"
       and ys = "[]" and env = "[]"]
  by (simp add: PodmanConnectionError_init_def spec_allow_list_def
      PodmanConnectionError_str_def PodmanConnectionError_msg_def Exception_str_def
      truthy_str_def relevant_vars_def relevant_names_def append_vars_def
      plain_bool_def plain_str_def)

subsection \<open>Rendering twice\<close>





end
